theory Spec2Isabelle
  imports Main "HOL-Library.Log_Nat" "HOL-Library.Multiset" "HOL-Library.AList"
begin

section \<open>Python values used by the simulator\<close>

text \<open>
  The engine of \<^verbatim>\<open>src/main.py\<close> works on Python integers (unbounded, modelled as
  \<open>int\<close>), strings, dictionaries whose keys are strings (modelled as association lists in
  insertion order: \<open>map_of\<close> looks a key up, \<open>AList.update\<close> stores a value in place or
  appends a new key) and, in one line of \<^verbatim>\<open>City.yearly_update\<close>, IEEE 754 binary64
  floats. Methods mutate their object in place; a raised exception leaves the mutations
  done so far. Each method is therefore a function from the state to the state it leaves
  behind, paired with the exception it raised, if any. Console output is not modelled.
\<close>

datatype error = OverflowError | ValueError | TypeError | KeyError

subsection \<open>Binary64 arithmetic\<close>

text \<open>
  A float is \<open>Finite m e\<close>, standing for the number \<open>m * 2^e\<close>, an infinity or a NaN.
  The sign of a zero is not kept: no operation used here can tell \<open>-0.0\<close> from \<open>0.0\<close>.
\<close>

datatype pyfloat = Finite int int | PosInf | NegInf | NaN

text \<open>The fraction \<open>n / d\<close> times \<open>2^k\<close>, again as a fraction.\<close>

definition scale2 :: "int \<Rightarrow> int \<times> int \<Rightarrow> int \<times> int" where
  "scale2 k f = (case f of (n, d) \<Rightarrow>
     if 0 \<le> k then (n * 2 ^ nat k, d) else (n, d * 2 ^ nat (- k)))"

text \<open>The integer nearest to \<open>n / d\<close> (for \<open>d > 0\<close>), a tie going to the even one.\<close>

definition round_half_even :: "int \<Rightarrow> int \<Rightarrow> int" where
  "round_half_even n d =
     (let q = n div d; r = n mod d
      in if 2 * r < d then q
         else if d < 2 * r then q + 1
         else if even q then q else q + 1)"

text \<open>The exponent \<open>k\<close> with \<open>2^k \<le> n / d < 2^(k+1)\<close>, for positive \<open>n\<close> and \<open>d\<close>.\<close>

definition ilog2 :: "int \<Rightarrow> int \<Rightarrow> int" where
  "ilog2 n d =
     (let k = bitlen n - bitlen d
      in case scale2 (- k) (n, d) of (a, b) \<Rightarrow> if b \<le> a then k else k - 1)"

text \<open>
  Rounding of the exact number \<open>n / d\<close> (\<open>d > 0\<close>) to the nearest binary64 value, ties to
  even: 53 significant bits, the unit in the last place never below \<open>2^-1074\<close> (gradual
  underflow), an infinity from \<open>2^1024\<close> on.
\<close>

definition round_to_double :: "int \<Rightarrow> int \<Rightarrow> pyfloat" where
  "round_to_double n d =
     (if n = 0 then Finite 0 0
      else
        let u = max (ilog2 \<bar>n\<bar> d - 52) (- 1074);
            m = (case scale2 (- u) (n, d) of (a, b) \<Rightarrow> round_half_even a b)
        in if 0 \<le> u \<and> 2 ^ 1024 \<le> \<bar>m\<bar> * 2 ^ nat u
           then (if 0 < n then PosInf else NegInf)
           else Finite m u)"

text \<open>
  \<^verbatim>\<open>float(i)\<close> as done implicitly by \<^verbatim>\<open>i * x\<close> for an int \<open>i\<close> and a float \<open>x\<close>:
  correctly rounded, \<^verbatim>\<open>OverflowError: int too large to convert to float\<close> otherwise.
\<close>

definition float_of_int :: "int \<Rightarrow> error + pyfloat" where
  "float_of_int i =
     (case round_to_double i 1 of
        PosInf \<Rightarrow> Inl OverflowError
      | NegInf \<Rightarrow> Inl OverflowError
      | x \<Rightarrow> Inr x)"

text \<open>
  \<^verbatim>\<open>a / b\<close> for ints \<open>a\<close> and \<open>b > 0\<close>: the correctly rounded quotient,
  \<^verbatim>\<open>OverflowError: integer division result too large for a float\<close> otherwise.
\<close>

definition py_truediv :: "int \<Rightarrow> int \<Rightarrow> error + pyfloat" where
  "py_truediv a b =
     (case round_to_double a b of
        PosInf \<Rightarrow> Inl OverflowError
      | NegInf \<Rightarrow> Inl OverflowError
      | x \<Rightarrow> Inr x)"

fun fneg :: "pyfloat \<Rightarrow> pyfloat" where
  "fneg (Finite m e) = Finite (- m) e"
| "fneg PosInf = NegInf"
| "fneg NegInf = PosInf"
| "fneg NaN = NaN"

fun fadd :: "pyfloat \<Rightarrow> pyfloat \<Rightarrow> pyfloat" where
  "fadd (Finite m1 e1) (Finite m2 e2) =
     (let e = min e1 e2
      in case scale2 e (m1 * 2 ^ nat (e1 - e) + m2 * 2 ^ nat (e2 - e), 1) of
           (n, d) \<Rightarrow> round_to_double n d)"
| "fadd NaN y = NaN"
| "fadd x NaN = NaN"
| "fadd PosInf NegInf = NaN"
| "fadd NegInf PosInf = NaN"
| "fadd PosInf y = PosInf"
| "fadd NegInf y = NegInf"
| "fadd x PosInf = PosInf"
| "fadd x NegInf = NegInf"

definition fsub :: "pyfloat \<Rightarrow> pyfloat \<Rightarrow> pyfloat" where
  "fsub x y = fadd x (fneg y)"

text \<open>The sign of a float as \<open>-1\<close>, \<open>0\<close> or \<open>1\<close> (of a NaN: \<open>0\<close>).\<close>

fun fsign :: "pyfloat \<Rightarrow> int" where
  "fsign (Finite m e) = sgn m"
| "fsign PosInf = 1"
| "fsign NegInf = - 1"
| "fsign NaN = 0"

fun fmul :: "pyfloat \<Rightarrow> pyfloat \<Rightarrow> pyfloat" where
  "fmul (Finite m1 e1) (Finite m2 e2) =
     (case scale2 (e1 + e2) (m1 * m2, 1) of (n, d) \<Rightarrow> round_to_double n d)"
| "fmul NaN y = NaN"
| "fmul x NaN = NaN"
| "fmul x y =
     (let s = fsign x * fsign y
      in if s = 0 then NaN else if 0 < s then PosInf else NegInf)"

text \<open>\<^verbatim>\<open>int(x)\<close> for a float: truncation toward zero.\<close>

fun int_of_float :: "pyfloat \<Rightarrow> error + int" where
  "int_of_float (Finite m e) =
     Inr (if 0 \<le> e then m * 2 ^ nat e else sgn m * (\<bar>m\<bar> div 2 ^ nat (- e)))"
| "int_of_float PosInf = Inl OverflowError"
| "int_of_float NegInf = Inl OverflowError"
| "int_of_float NaN = Inl ValueError"

text \<open>The literal \<^verbatim>\<open>0.01\<close>, that is \<^verbatim>\<open>0x1.47ae147ae147bp-7\<close>.\<close>

definition float_0_01 :: pyfloat where
  "float_0_01 = Finite 5764607523034235 (- 59)"

section \<open>Cities\<close>

record city =
  city_id :: string
  city_name :: string
  city_population :: int
  economy :: int
  crime :: int
  happiness :: int
  features :: "string list"

text \<open>
  The three \<^verbatim>\<open>random.randint\<close> results of one \<^verbatim>\<open>yearly_update\<close>, in call order:
  \<^verbatim>\<open>randint(0, 2)\<close>, \<^verbatim>\<open>randint(-1, 2)\<close> and \<^verbatim>\<open>randint(-1, 1)\<close>.
\<close>

record city_draws =
  econ_growth :: int
  happiness_drift :: int
  crime_drift :: int

definition city_draws_ok :: "city_draws \<Rightarrow> bool" where
  "city_draws_ok d \<longleftrightarrow>
     0 \<le> econ_growth d \<and> econ_growth d \<le> 2 \<and>
     - 1 \<le> happiness_drift d \<and> happiness_drift d \<le> 2 \<and>
     - 1 \<le> crime_drift d \<and> crime_drift d \<le> 1"

text \<open>
  The names for which \<^verbatim>\<open>hasattr(city, k)\<close> holds besides the four integer fields: the
  other instance attributes, the method, and what every instance inherits from
  \<^verbatim>\<open>object\<close>. For each of them \<^verbatim>\<open>getattr(self, k) + v\<close> raises TypeError.
\<close>

definition city_other_attrs :: "string list" where
  "city_other_attrs =
     [''id'', ''name'', ''features'', ''yearly_update'',
      ''__class__'', ''__delattr__'', ''__dict__'', ''__dir__'', ''__doc__'', ''__eq__'',
      ''__format__'', ''__ge__'', ''__getattribute__'', ''__getstate__'', ''__gt__'',
      ''__hash__'', ''__init__'', ''__init_subclass__'', ''__le__'', ''__lt__'',
      ''__module__'', ''__ne__'', ''__new__'', ''__reduce__'', ''__reduce_ex__'',
      ''__repr__'', ''__setattr__'', ''__sizeof__'', ''__str__'', ''__subclasshook__'',
      ''__weakref__'']"

text \<open>
  One round of the loop over \<^verbatim>\<open>law_effects.items()\<close>:
  \<^verbatim>\<open>if hasattr(self, k): setattr(self, k, max(0, min(100, getattr(self, k) + v)))\<close>.
\<close>

definition set_attr :: "string \<times> int \<Rightarrow> city \<Rightarrow> city \<times> error option" where
  "set_attr kv c = (case kv of (k, v) \<Rightarrow>
     if k = ''population''
       then (c\<lparr>city_population := max 0 (min 100 (city_population c + v))\<rparr>, None)
     else if k = ''economy''
       then (c\<lparr>economy := max 0 (min 100 (economy c + v))\<rparr>, None)
     else if k = ''crime''
       then (c\<lparr>crime := max 0 (min 100 (crime c + v))\<rparr>, None)
     else if k = ''happiness''
       then (c\<lparr>happiness := max 0 (min 100 (happiness c + v))\<rparr>, None)
     else if k \<in> set city_other_attrs then (c, Some TypeError)
     else (c, None))"

fun apply_law_effects :: "(string \<times> int) list \<Rightarrow> city \<Rightarrow> city \<times> error option" where
  "apply_law_effects [] c = (c, None)"
| "apply_law_effects (kv # kvs) c =
     (case set_attr kv c of
        (c', None) \<Rightarrow> apply_law_effects kvs c'
      | (c', Some e) \<Rightarrow> (c', Some e))"

text \<open>
  \<^verbatim>\<open>int(self.population * (0.01 + self.economy/1000 - self.crime/2000))\<close>, the operands
  evaluated from left to right.
\<close>

definition growth_of :: "int \<Rightarrow> int \<Rightarrow> int \<Rightarrow> error + int" where
  "growth_of pop econ crim =
     (case py_truediv econ 1000 of Inl e \<Rightarrow> Inl e | Inr a \<Rightarrow>
      case py_truediv crim 2000 of Inl e \<Rightarrow> Inl e | Inr b \<Rightarrow>
      case float_of_int pop of Inl e \<Rightarrow> Inl e | Inr p \<Rightarrow>
        int_of_float (fmul p (fsub (fadd float_0_01 a) b)))"

definition yearly_update :: "(string \<times> int) list \<Rightarrow> city_draws \<Rightarrow> city \<Rightarrow> city \<times> error option" where
  "yearly_update law_effects d c0 =
     (case apply_law_effects law_effects c0 of
        (c1, Some e) \<Rightarrow> (c1, Some e)
      | (c1, None) \<Rightarrow>
          let c2 = c1\<lparr>economy := min 100 (economy c1 + econ_growth d)\<rparr>;
              c3 = c2\<lparr>happiness := max 0 (min 100 (happiness c2 + happiness_drift d))\<rparr>;
              c4 = c3\<lparr>crime := max 0 (min 100 (crime c3 + crime_drift d))\<rparr>
          in case growth_of (city_population c4) (economy c4) (crime c4) of
               Inl e \<Rightarrow> (c4, Some e)
             | Inr growth \<Rightarrow>
                 (c4\<lparr>city_population := max 0 (city_population c4 + growth)\<rparr>, None))"

section \<open>The country\<close>

record law =
  law_id :: string
  title :: string
  law_description :: string
  impact :: "(string \<times> int) list"

record event =
  event_id :: string
  event_description :: string
  effect :: "(string \<times> int) list"
  event_year :: int

record country =
  name :: string
  description :: string
  population :: int
  cities :: "city list"
  laws :: "law list"
  events :: "event list"
  year :: int
  resources :: "(string \<times> int) list"

text \<open>
  Sequencing of two mutations: the second runs on the state the first leaves, unless the
  first raised.
\<close>

definition and_then ::
  "('s \<Rightarrow> 's \<times> error option) \<Rightarrow> ('s \<Rightarrow> 's \<times> error option) \<Rightarrow> 's \<Rightarrow> 's \<times> error option" where
  "and_then f g s = (case f s of (s', None) \<Rightarrow> g s' | (s', Some e) \<Rightarrow> (s', Some e))"

text \<open>
  The loop \<^verbatim>\<open>for k, v in items.items(): if k in target: target[k] += v\<close>, which
  \<^verbatim>\<open>add_event\<close> runs on the resources and \<^verbatim>\<open>simulate_tick\<close> on the law effects.
\<close>

fun add_matching :: "(string \<times> int) list \<Rightarrow> (string \<times> int) list \<Rightarrow> (string \<times> int) list" where
  "add_matching [] target = target"
| "add_matching ((k, v) # items) target =
     add_matching items
       (case map_of target k of
          Some x \<Rightarrow> AList.update k (x + v) target
        | None \<Rightarrow> target)"

text \<open>\<^verbatim>\<open>Country.add_event\<close>; \<open>uuid\<close> is the \<^verbatim>\<open>str(uuid4())\<close> of the new event.\<close>

definition add_event :: "string \<Rightarrow> string \<Rightarrow> (string \<times> int) list \<Rightarrow> country \<Rightarrow> country" where
  "add_event uuid descr eff s =
     s\<lparr>events := events s @
          [\<lparr>event_id = uuid, event_description = descr, effect = eff, event_year = year s\<rparr>],
       resources := add_matching eff (resources s)\<rparr>"

subsection \<open>The yearly tick\<close>

text \<open>
  What one \<^verbatim>\<open>simulate_tick\<close> draws: the three rolls of the city at each position,
  \<^verbatim>\<open>randint(-500, 900)\<close>, \<^verbatim>\<open>randint(0, 30)\<close>, \<^verbatim>\<open>randint(-2, 3)\<close>, the value of
  \<^verbatim>\<open>random.random()\<close> as its numerator over \<open>2^53\<close>, the result of
  \<^verbatim>\<open>random.choice(["good", "bad"])\<close>, and the identifiers of the events it may create.
\<close>

record tick_draws =
  city_rolls :: "nat \<Rightarrow> city_draws"
  money_roll :: int
  tech_roll :: int
  reputation_roll :: int
  event_roll :: nat
  event_choice :: string
  event_uuid :: string
  starvation_uuid :: string

definition tick_draws_ok :: "nat \<Rightarrow> tick_draws \<Rightarrow> bool" where
  "tick_draws_ok n d \<longleftrightarrow>
     (\<forall>i < n. city_draws_ok (city_rolls d i)) \<and>
     - 500 \<le> money_roll d \<and> money_roll d \<le> 900 \<and>
     0 \<le> tech_roll d \<and> tech_roll d \<le> 30 \<and>
     - 2 \<le> reputation_roll d \<and> reputation_roll d \<le> 3 \<and>
     event_roll d < 2 ^ 53 \<and>
     event_choice d \<in> set [''good'', ''bad'']"

text \<open>Lines 100 to 105: the cumulative law effects.\<close>

definition cumulative_law_effects :: "law list \<Rightarrow> (string \<times> int) list" where
  "cumulative_law_effects ls =
     fold (\<lambda>l law_effects. add_matching (impact l) law_effects) ls
       [(''crime'', 0), (''happiness'', 0)]"

text \<open>
  Lines 108 to 111: the loop over the cities, from position \<open>i\<close> and with the running
  \<^verbatim>\<open>total_population\<close> \<open>tot\<close>. It stops at the first city whose update raises.
\<close>

fun update_cities ::
  "(string \<times> int) list \<Rightarrow> (nat \<Rightarrow> city_draws) \<Rightarrow> nat \<Rightarrow> city list \<Rightarrow> int
     \<Rightarrow> (city list \<times> int) \<times> error option" where
  "update_cities le ds i [] tot = (([], tot), None)"
| "update_cities le ds i (c # cs) tot =
     (case yearly_update le (ds i) c of
        (c', Some e) \<Rightarrow> ((c' # cs, tot), Some e)
      | (c', None) \<Rightarrow>
          (case update_cities le ds (Suc i) cs (tot + city_population c') of
             ((cs', t), r) \<Rightarrow> ((c' # cs', t), r)))"

text \<open>Lines 100 to 113: law effects, city updates and the national population.\<close>

definition update_all_cities :: "tick_draws \<Rightarrow> country \<Rightarrow> country \<times> error option" where
  "update_all_cities d s =
     (case update_cities (cumulative_law_effects (laws s)) (city_rolls d) 0 (cities s) 0 of
        ((cs, total_population), Some e) \<Rightarrow> (s\<lparr>cities := cs\<rparr>, Some e)
      | ((cs, total_population), None) \<Rightarrow>
          (s\<lparr>cities := cs,
             population := (if cs \<noteq> [] then total_population else population s)\<rparr>, None))"

text \<open>\<^verbatim>\<open>self.resources[k] = f(self.resources[k])\<close>: KeyError when \<open>k\<close> is missing.\<close>

definition modify_resource :: "string \<Rightarrow> (int \<Rightarrow> int) \<Rightarrow> country \<Rightarrow> country \<times> error option" where
  "modify_resource k f s =
     (case map_of (resources s) k of
        None \<Rightarrow> (s, Some KeyError)
      | Some x \<Rightarrow> (s\<lparr>resources := AList.update k (f x) (resources s)\<rparr>, None))"

text \<open>Lines 116 to 121: the national resources.\<close>

definition national_resources :: "tick_draws \<Rightarrow> country \<Rightarrow> country \<times> error option" where
  "national_resources d s =
     (let food_produced = sum_list (map economy (cities s)) * 5;
          food_consumed = population s div 2
      in and_then (modify_resource ''food'' (\<lambda>x. x + (food_produced - food_consumed)))
        (and_then (modify_resource ''money'' (\<lambda>x. x + money_roll d))
        (and_then (modify_resource ''tech'' (\<lambda>x. x + tech_roll d))
          (modify_resource ''reputation'' (\<lambda>x. max 0 (min 100 (x + reputation_roll d)))))) s)"

definition append_event :: "event \<Rightarrow> country \<Rightarrow> country \<times> error option" where
  "append_event evt s = (s\<lparr>events := events s @ [evt]\<rparr>, None)"

text \<open>
  \<^verbatim>\<open>random.random() < 0.3\<close> compares \<open>event_roll / 2^53\<close> with the float \<^verbatim>\<open>0.3\<close>,
  which is \<open>5404319552844595 / 2^54\<close>.
\<close>

definition event_fires :: "tick_draws \<Rightarrow> bool" where
  "event_fires d \<longleftrightarrow> 2 * int (event_roll d) < 5404319552844595"

text \<open>Lines 124 to 144: the random event.\<close>

definition random_event :: "tick_draws \<Rightarrow> country \<Rightarrow> country \<times> error option" where
  "random_event d s =
     (if event_fires d then
        if event_choice d = ''good'' then
          and_then (modify_resource ''tech'' (\<lambda>x. x + 100))
            (and_then (modify_resource ''reputation'' (\<lambda>x. x + 5))
              (append_event
                 \<lparr>event_id = event_uuid d,
                  event_description = ''A scientific breakthrough boosts tech!'',
                  effect = [(''tech'', 100), (''reputation'', 5)],
                  event_year = year s\<rparr>)) s
        else
          and_then (modify_resource ''food'' (\<lambda>x. x - 300))
            (append_event
               \<lparr>event_id = event_uuid d,
                event_description = ''A crop blight reduces food stores!'',
                effect = [(''food'', - 300)],
                event_year = year s\<rparr>) s
      else (s, None))"

text \<open>Lines 147 to 157: the starvation check.\<close>

definition starvation_check :: "tick_draws \<Rightarrow> country \<Rightarrow> country \<times> error option" where
  "starvation_check d s =
     (case map_of (resources s) ''food'' of
        None \<Rightarrow> (s, Some KeyError)
      | Some food \<Rightarrow>
          if food < 0 then
            let lost = min (population s div 10) (population s)
            in (s\<lparr>population := population s - lost,
                   resources := AList.update ''food'' 0 (resources s),
                   events := events s @
                     [\<lparr>event_id = starvation_uuid d,
                       event_description = ''Starvation strikes the nation!'',
                       effect = [],
                       event_year = year s\<rparr>]\<rparr>, None)
          else (s, None))"

text \<open>Line 160: the year advance.\<close>

definition advance_year :: "country \<Rightarrow> country \<times> error option" where
  "advance_year s = (s\<lparr>year := year s + 1\<rparr>, None)"

text \<open>The tick up to the national resources (lines 100 to 121), and the rest of it.\<close>

definition tick_through_resources :: "tick_draws \<Rightarrow> country \<Rightarrow> country \<times> error option" where
  "tick_through_resources d = and_then (update_all_cities d) (national_resources d)"

definition tick_from_event :: "tick_draws \<Rightarrow> country \<Rightarrow> country \<times> error option" where
  "tick_from_event d = and_then (random_event d) (and_then (starvation_check d) advance_year)"

definition simulate_tick :: "tick_draws \<Rightarrow> country \<Rightarrow> country \<times> error option" where
  "simulate_tick d = and_then (tick_through_resources d) (tick_from_event d)"

section \<open>Saving and loading\<close>

text \<open>
  \<^verbatim>\<open>Country.save\<close> builds a document of dictionaries, lists, strings and ints and hands
  it to \<^verbatim>\<open>json.dump\<close>; \<^verbatim>\<open>Country.load\<close> receives from \<^verbatim>\<open>json.load\<close> the document
  read back. The document is the value modelled here; its text in the file is not.
\<close>

datatype json = JInt int | JStr string | JList "json list" | JDict "(string \<times> json) list"

definition json_of_dict :: "(string \<times> int) list \<Rightarrow> json" where
  "json_of_dict kvs = JDict (map (\<lambda>kv. (fst kv, JInt (snd kv))) kvs)"

definition save_city :: "city \<Rightarrow> json" where
  "save_city c =
     JDict [(''id'', JStr (city_id c)), (''name'', JStr (city_name c)),
            (''population'', JInt (city_population c)), (''economy'', JInt (economy c)),
            (''crime'', JInt (crime c)), (''happiness'', JInt (happiness c)),
            (''features'', JList (map JStr (features c)))]"

definition save_law :: "law \<Rightarrow> json" where
  "save_law l =
     JDict [(''id'', JStr (law_id l)), (''title'', JStr (title l)),
            (''description'', JStr (law_description l)), (''impact'', json_of_dict (impact l))]"

definition save_event :: "event \<Rightarrow> json" where
  "save_event e =
     JDict [(''id'', JStr (event_id e)), (''description'', JStr (event_description e)),
            (''effect'', json_of_dict (effect e)), (''year'', JInt (event_year e))]"

text \<open>Lines 165 to 187: the document \<^verbatim>\<open>data\<close> of \<^verbatim>\<open>Country.save\<close>.\<close>

definition save :: "country \<Rightarrow> json" where
  "save s =
     JDict [(''name'', JStr (name s)), (''description'', JStr (description s)),
            (''population'', JInt (population s)), (''year'', JInt (year s)),
            (''resources'', json_of_dict (resources s)),
            (''cities'', JList (map save_city (cities s))),
            (''laws'', JList (map save_law (laws s))),
            (''events'', JList (map save_event (events s)))]"

definition bind_err :: "error + 'a \<Rightarrow> ('a \<Rightarrow> error + 'b) \<Rightarrow> error + 'b" where
  "bind_err r f = (case r of Inl e \<Rightarrow> Inl e | Inr x \<Rightarrow> f x)"

text \<open>\<^verbatim>\<open>j[k]\<close> for a string \<open>k\<close>: KeyError on a dictionary without it, TypeError elsewhere.\<close>

fun get_item :: "json \<Rightarrow> string \<Rightarrow> error + json" where
  "get_item (JDict kvs) k = (case map_of kvs k of None \<Rightarrow> Inl KeyError | Some v \<Rightarrow> Inr v)"
| "get_item j k = Inl TypeError"

text \<open>What a \<^verbatim>\<open>for\<close> over a document yields: the keys of a dictionary, the characters of a string.\<close>

fun iter_json :: "json \<Rightarrow> error + json list" where
  "iter_json (JList js) = Inr js"
| "iter_json (JDict kvs) = Inr (map (\<lambda>kv. JStr (fst kv)) kvs)"
| "iter_json (JStr cs) = Inr (map (\<lambda>c. JStr [c]) cs)"
| "iter_json (JInt i) = Inl TypeError"

text \<open>
  The fields of the records are typed, those of the Python objects are not: \<^verbatim>\<open>load\<close>
  stores whatever the document holds. A document holding a value of another type than
  the field it goes to has no counterpart among the records; the four functions below
  answer TypeError for it. \<^verbatim>\<open>save\<close> never writes such a document.
\<close>

fun as_int :: "json \<Rightarrow> error + int" where
  "as_int (JInt i) = Inr i"
| "as_int j = Inl TypeError"

fun as_str :: "json \<Rightarrow> error + string" where
  "as_str (JStr s) = Inr s"
| "as_str j = Inl TypeError"

fun map_err :: "('a \<Rightarrow> error + 'b) \<Rightarrow> 'a list \<Rightarrow> error + 'b list" where
  "map_err f [] = Inr []"
| "map_err f (x # xs) = bind_err (f x) (\<lambda>y. bind_err (map_err f xs) (\<lambda>ys. Inr (y # ys)))"

fun as_str_list :: "json \<Rightarrow> error + string list" where
  "as_str_list (JList js) = map_err as_str js"
| "as_str_list j = Inl TypeError"

fun as_dict :: "json \<Rightarrow> error + (string \<times> int) list" where
  "as_dict (JDict kvs) = map_err (\<lambda>kv. bind_err (as_int (snd kv)) (\<lambda>v. Inr (fst kv, v))) kvs"
| "as_dict j = Inl TypeError"

definition field :: "json \<Rightarrow> string \<Rightarrow> (json \<Rightarrow> error + 'a) \<Rightarrow> error + 'a" where
  "field j k conv = bind_err (get_item j k) conv"

text \<open>
  The constructor calls of lines 201 to 214, the keyword arguments evaluated in the order
  written; \<open>uuid\<close> is the fresh \<^verbatim>\<open>str(uuid4())\<close> that \<^verbatim>\<open>__init__\<close> assigns, the
  identifier in the document is not read. \<^verbatim>\<open>features if features else []\<close> is the list
  itself.
\<close>

definition load_city :: "string \<Rightarrow> json \<Rightarrow> error + city" where
  "load_city uuid c =
     bind_err (field c ''name'' as_str) (\<lambda>n.
     bind_err (field c ''population'' as_int) (\<lambda>p.
     bind_err (field c ''features'' as_str_list) (\<lambda>fs.
     bind_err (field c ''economy'' as_int) (\<lambda>e.
     bind_err (field c ''crime'' as_int) (\<lambda>cr.
     bind_err (field c ''happiness'' as_int) (\<lambda>h.
       Inr \<lparr>city_id = uuid, city_name = n, city_population = p, economy = e, crime = cr,
            happiness = h, features = (if fs \<noteq> [] then fs else [])\<rparr>))))))"

definition load_law :: "string \<Rightarrow> json \<Rightarrow> error + law" where
  "load_law uuid l =
     bind_err (field l ''title'' as_str) (\<lambda>t.
     bind_err (field l ''description'' as_str) (\<lambda>d.
     bind_err (field l ''impact'' as_dict) (\<lambda>i.
       Inr \<lparr>law_id = uuid, title = t, law_description = d, impact = i\<rparr>)))"

definition load_event :: "string \<Rightarrow> json \<Rightarrow> error + event" where
  "load_event uuid e =
     bind_err (field e ''description'' as_str) (\<lambda>d.
     bind_err (field e ''effect'' as_dict) (\<lambda>f.
     bind_err (field e ''year'' as_int) (\<lambda>y.
       Inr \<lparr>event_id = uuid, event_description = d, effect = f, event_year = y\<rparr>)))"

text \<open>A list comprehension \<^verbatim>\<open>[f(x) for x in xs]\<close>; the element at position \<open>i\<close> gets the identifier \<open>uuids i\<close>.\<close>

fun load_all :: "(string \<Rightarrow> json \<Rightarrow> error + 'a) \<Rightarrow> (nat \<Rightarrow> string) \<Rightarrow> nat \<Rightarrow> json list \<Rightarrow> error + 'a list" where
  "load_all f uuids i [] = Inr []"
| "load_all f uuids i (j # js) =
     bind_err (f (uuids i) j) (\<lambda>x. bind_err (load_all f uuids (Suc i) js) (\<lambda>xs. Inr (x # xs)))"

definition load_list :: "(string \<Rightarrow> json \<Rightarrow> error + 'a) \<Rightarrow> (nat \<Rightarrow> string) \<Rightarrow> json \<Rightarrow> error + 'a list" where
  "load_list f uuids j = bind_err (iter_json j) (load_all f uuids 0)"

text \<open>The identifiers \<^verbatim>\<open>load\<close> draws for the cities, laws and events it constructs.\<close>

record load_uuids =
  city_uuids :: "nat \<Rightarrow> string"
  law_uuids :: "nat \<Rightarrow> string"
  event_uuids :: "nat \<Rightarrow> string"

text \<open>One assignment \<^verbatim>\<open>self.x = ... data[k] ...\<close> of \<^verbatim>\<open>load\<close>.\<close>

definition assign ::
  "json \<Rightarrow> string \<Rightarrow> (json \<Rightarrow> error + 'a) \<Rightarrow> ('a \<Rightarrow> country \<Rightarrow> country) \<Rightarrow> country \<Rightarrow> country \<times> error option" where
  "assign data k conv store s =
     (case field data k conv of Inl e \<Rightarrow> (s, Some e) | Inr v \<Rightarrow> (store v s, None))"

text \<open>Lines 195 to 215: \<^verbatim>\<open>Country.load\<close> on the document \<open>data\<close>.\<close>

definition load :: "load_uuids \<Rightarrow> json \<Rightarrow> country \<Rightarrow> country \<times> error option" where
  "load u data =
     and_then (assign data ''name'' as_str (\<lambda>v s. s\<lparr>name := v\<rparr>))
    (and_then (assign data ''description'' as_str (\<lambda>v s. s\<lparr>description := v\<rparr>))
    (and_then (assign data ''population'' as_int (\<lambda>v s. s\<lparr>population := v\<rparr>))
    (and_then (assign data ''year'' as_int (\<lambda>v s. s\<lparr>year := v\<rparr>))
    (and_then (assign data ''resources'' as_dict (\<lambda>v s. s\<lparr>resources := v\<rparr>))
    (and_then (assign data ''cities'' (load_list load_city (city_uuids u)) (\<lambda>v s. s\<lparr>cities := v\<rparr>))
    (and_then (assign data ''laws'' (load_list load_law (law_uuids u)) (\<lambda>v s. s\<lparr>laws := v\<rparr>))
      (assign data ''events'' (load_list load_event (event_uuids u)) (\<lambda>v s. s\<lparr>events := v\<rparr>))))))))"

section \<open>Quantities the properties speak about\<close>

text \<open>The sum of the deltas that the entries of \<open>items\<close> with key \<open>k\<close> carry.\<close>

definition key_total :: "string \<Rightarrow> (string \<times> int) list \<Rightarrow> int" where
  "key_total k items = sum_list (map snd (filter (\<lambda>kv. fst kv = k) items))"

text \<open>Every draw of a city pinned to 0.\<close>

definition pinned_rolls :: "nat \<Rightarrow> city_draws" where
  "pinned_rolls i = \<lparr>econ_growth = 0, happiness_drift = 0, crime_drift = 0\<rparr>"

text \<open>A finite float of magnitude at most \<open>2^k\<close>.\<close>

fun float_fits :: "pyfloat \<Rightarrow> int \<Rightarrow> bool" where
  "float_fits (Finite m e) k \<longleftrightarrow> \<bar>real_of_int m\<bar> * 2 powi e \<le> 2 powi k"
| "float_fits PosInf k \<longleftrightarrow> False"
| "float_fits NegInf k \<longleftrightarrow> False"
| "float_fits NaN k \<longleftrightarrow> False"

section \<open>Float results that stay finite\<close>

lemma scale2_sem:
  assumes "scale2 j (n, d) = (a, b)" and "0 < d"
  shows "0 < b \<and> real_of_int a * real_of_int d = real_of_int n * real_of_int b * 2 powi j"
proof (cases "0 \<le> j")
  case True
  with assms have "a = n * 2 ^ nat j" "b = d" by (auto simp: scale2_def)
  with True assms(2) show ?thesis by (simp add: power_int_nonneg_exp)
next
  case False
  with assms have ab: "a = n" "b = d * 2 ^ nat (- j)" by (auto simp: scale2_def)
  from False have "(2::real) powi j = inverse (2 ^ nat (- j))"
    by (metis power_int_minus power_int_nonneg_exp inverse_inverse_eq minus_minus neg_0_le_iff_le
        linorder_le_cases)
  with ab assms(2) show ?thesis by simp
qed

lemma round_half_even_bound:
  assumes "0 < b" and "\<bar>a\<bar> \<le> N * b"
  shows "\<bar>round_half_even a b\<bar> \<le> N"
proof -
  let ?q = "a div b" and ?r = "a mod b"
  have r: "0 \<le> ?r" "?r < b" using assms(1) by simp_all
  have up: "?q \<le> N"
    using zdiv_mono1 [of a "N * b" b] assms by simp
  have low: "- N \<le> ?q"
  proof -
    have "(- N) * b \<le> a" using assms(2) by simp
    from zdiv_mono1 [OF this assms(1)] have "((- N) * b) div b \<le> a div b" .
    moreover have "((- N) * b) div b = - N"
      using assms(1) by (intro nonzero_mult_div_cancel_right) simp
    ultimately show ?thesis by (simp only:)
  qed
  have strict: "?q < N" if "0 < ?r"
  proof (rule ccontr)
    assume "\<not> ?q < N"
    with up have "?q = N" by simp
    then have "a = N * b + ?r" by (metis mult.commute mult_div_mod_eq)
    with that assms(2) show False by simp
  qed
  have "round_half_even a b = ?q \<or> (round_half_even a b = ?q + 1 \<and> 0 < ?r)"
    using r assms(1) by (auto simp: round_half_even_def Let_def)
  with up low strict show ?thesis by auto
qed

lemma ilog2_le:
  assumes "0 < n" and "0 < d" and "real_of_int n \<le> real_of_int d * 2 powi k"
  shows "ilog2 n d \<le> k"
proof -
  have "ilog2 n d \<le> bitlen n - bitlen d"
    by (simp add: ilog2_def Let_def split: prod.splits)
  moreover have "bitlen n - bitlen d \<le> k"
  proof -
    from bitlen_bounds [OF assms(1)] have "2 ^ nat (bitlen n - 1) \<le> n" by simp
    then have "real_of_int (2 ^ nat (bitlen n - 1)) \<le> real_of_int n" by linarith
    moreover have "1 \<le> bitlen n" using assms(1) by (simp add: bitlen_alt_def)
    ultimately have 1: "(2::real) powi (bitlen n - 1) \<le> real_of_int n"
      by (simp add: power_int_nonneg_exp)
    from bitlen_bounds [OF assms(2)] have "d < 2 ^ nat (bitlen d)" by simp
    then have "real_of_int d < real_of_int (2 ^ nat (bitlen d))" by linarith
    then have 2: "real_of_int d < 2 powi (bitlen d)"
      by (simp add: power_int_nonneg_exp bitlen_nonneg)
    have "(2::real) powi (bitlen n - 1) \<le> real_of_int d * 2 powi k" using 1 assms(3) by linarith
    also have "\<dots> < 2 powi (bitlen d) * 2 powi k"
      using 2 by (simp add: zero_less_power_int)
    also have "\<dots> = 2 powi (bitlen d + k)" by (simp add: power_int_add)
    finally have lt: "(2::real) powi (bitlen n - 1) < 2 powi (bitlen d + k)" .
    have "bitlen n - 1 < bitlen d + k"
    proof (rule ccontr)
      assume "\<not> bitlen n - 1 < bitlen d + k"
      then have "(2::real) powi (bitlen d + k) \<le> 2 powi (bitlen n - 1)"
        by (intro power_int_increasing) simp_all
      with lt show False by simp
    qed
    then show ?thesis by simp
  qed
  ultimately show ?thesis by simp
qed


lemma round_to_double_fits:
  assumes d: "0 < d" and bound: "\<bar>real_of_int n\<bar> \<le> real_of_int d * 2 powi k"
    and k: "- 1074 \<le> k" "k \<le> 1023"
  shows "float_fits (round_to_double n d) k"
proof (cases "n = 0")
  case True
  then show ?thesis by (simp add: round_to_double_def)
next
  case False
  define u where "u = max (ilog2 \<bar>n\<bar> d - 52) (- 1074)"
  obtain a b where ab: "scale2 (- u) (n, d) = (a, b)" by force
  define m where "m = round_half_even a b"
  have "ilog2 \<bar>n\<bar> d \<le> k"
    using ilog2_le [of "\<bar>n\<bar>" d k] False d bound by simp
  with k have uk: "u \<le> k" by (simp add: u_def)
  from scale2_sem [OF ab d] have b: "0 < b"
    and eq: "real_of_int a * real_of_int d = real_of_int n * real_of_int b * 2 powi (- u)"
    by simp_all
  have p2: "(2::real) powi k = 2 ^ nat (k - u) * 2 powi u"
  proof -
    have "(2::real) powi k = 2 powi (k - u) * 2 powi u"
      by (simp flip: power_int_add)
    then show ?thesis using uk by (simp add: power_int_nonneg_exp)
  qed
  have "\<bar>real_of_int a\<bar> * real_of_int d = \<bar>real_of_int n\<bar> * (real_of_int b * 2 powi (- u))"
    using eq d b by (metis abs_mult abs_of_pos mult.assoc of_int_0_less_iff zero_less_mult_iff
        zero_less_numeral zero_less_power_int)
  also have "\<dots> \<le> (real_of_int d * 2 powi k) * (real_of_int b * 2 powi (- u))"
    using bound b by (intro mult_right_mono) simp_all
  also have "\<dots> = (2 ^ nat (k - u) * real_of_int b) * real_of_int d"
    by (simp add: p2 power_int_minus)
  finally have "\<bar>real_of_int a\<bar> \<le> 2 ^ nat (k - u) * real_of_int b"
    using d by simp
  then have "\<bar>a\<bar> \<le> 2 ^ nat (k - u) * b"
    by (metis (mono_tags, opaque_lifting) of_int_abs of_int_le_iff of_int_mult of_int_numeral of_int_power)
  from round_half_even_bound [OF b this] have m: "\<bar>m\<bar> \<le> 2 ^ nat (k - u)"
    by (simp add: m_def)
  have no_overflow: "\<not> (0 \<le> u \<and> (2::int) ^ 1024 \<le> \<bar>m\<bar> * 2 ^ nat u)"
  proof
    assume h: "0 \<le> u \<and> (2::int) ^ 1024 \<le> \<bar>m\<bar> * 2 ^ nat u"
    have "\<bar>m\<bar> * 2 ^ nat u \<le> 2 ^ nat (k - u) * 2 ^ nat u"
      using m by (intro mult_right_mono) simp_all
    also have "\<dots> = 2 ^ nat k" using h uk by (simp flip: power_add nat_add_distrib)
    also have "\<dots> \<le> (2::int) ^ 1023" using k by (intro power_increasing) simp_all
    finally show False using h by simp
  qed
  have res: "round_to_double n d = Finite m u"
    using False no_overflow unfolding round_to_double_def Let_def u_def [symmetric] ab m_def
    by simp
  have "\<bar>real_of_int m\<bar> * 2 powi u \<le> 2 ^ nat (k - u) * 2 powi u"
  proof (intro mult_right_mono)
    from m have "real_of_int \<bar>m\<bar> \<le> real_of_int (2 ^ nat (k - u))" by (simp only: of_int_le_iff)
    then show "\<bar>real_of_int m\<bar> \<le> 2 ^ nat (k - u)" by simp
  qed simp
  with p2 res show ?thesis by simp
qed


lemma float_fits_cases:
  assumes "float_fits x k"
  obtains m e where "x = Finite m e" and "\<bar>real_of_int m\<bar> * 2 powi e \<le> 2 powi k"
  using assms by (cases x) simp_all

lemma scale2_one:
  assumes "scale2 e (n, 1) = (a, b)"
  shows "0 < b \<and> real_of_int a = real_of_int n * 2 powi e * real_of_int b"
  using scale2_sem [OF assms] by simp

lemma py_truediv_fits:
  assumes "0 < b" and "\<bar>real_of_int a\<bar> \<le> real_of_int b * 2 powi k" and "- 1074 \<le> k" and "k \<le> 1023"
  shows "\<exists>x. py_truediv a b = Inr x \<and> float_fits x k"
  using round_to_double_fits [OF assms]
  by (cases "round_to_double a b") (simp_all add: py_truediv_def)

lemma float_of_int_fits:
  assumes "\<bar>real_of_int i\<bar> \<le> 2 powi k" and "- 1074 \<le> k" and "k \<le> 1023"
  shows "\<exists>x. float_of_int i = Inr x \<and> float_fits x k"
  using round_to_double_fits [of 1 i k] assms
  by (cases "round_to_double i 1") (simp_all add: float_of_int_def)

lemma fneg_fits: "float_fits x k \<Longrightarrow> float_fits (fneg x) k"
  by (cases x) simp_all

lemma fadd_fits:
  assumes x: "float_fits x k1" and y: "float_fits y k2"
    and k1: "k1 < k" and k2: "k2 < k" and k: "- 1074 \<le> k" "k \<le> 1023"
  shows "float_fits (fadd x y) k"
proof -
  from x obtain m1 e1 where x': "x = Finite m1 e1"
    and b1: "\<bar>real_of_int m1\<bar> * 2 powi e1 \<le> 2 powi k1" by (rule float_fits_cases)
  from y obtain m2 e2 where y': "y = Finite m2 e2"
    and b2: "\<bar>real_of_int m2\<bar> * 2 powi e2 \<le> 2 powi k2" by (rule float_fits_cases)
  define e where "e = min e1 e2"
  define n where "n = m1 * 2 ^ nat (e1 - e) + m2 * 2 ^ nat (e2 - e)"
  obtain a b where ab: "scale2 e (n, 1) = (a, b)" by force
  from scale2_one [OF ab] have b: "0 < b"
    and eq: "real_of_int a = real_of_int n * 2 powi e * real_of_int b" by simp_all
  have s1: "2 powi e * (2::real) ^ nat (e1 - e) = 2 powi e1"
  proof -
    have "(2::real) powi e1 = 2 powi (e1 - e) * 2 powi e" by (simp flip: power_int_add)
    then show ?thesis by (simp add: power_int_nonneg_exp e_def)
  qed
  have s2: "2 powi e * (2::real) ^ nat (e2 - e) = 2 powi e2"
  proof -
    have "(2::real) powi e2 = 2 powi (e2 - e) * 2 powi e" by (simp flip: power_int_add)
    then show ?thesis by (simp add: power_int_nonneg_exp e_def)
  qed
  have "real_of_int n * 2 powi e = real_of_int m1 * 2 powi e1 + real_of_int m2 * 2 powi e2"
    by (simp add: n_def algebra_simps s1 s2)
  then have "\<bar>real_of_int n * 2 powi e\<bar> \<le> \<bar>real_of_int m1\<bar> * 2 powi e1 + \<bar>real_of_int m2\<bar> * 2 powi e2"
    by (simp add: abs_mult flip: abs_mult) (metis abs_mult abs_triangle_ineq abs_of_pos zero_less_numeral zero_less_power_int)
  also have "\<dots> \<le> 2 powi k1 + 2 powi k2" using b1 b2 by simp
  also have "\<dots> \<le> 2 powi (k - 1) + 2 powi (k - 1)"
    using k1 k2 by (intro add_mono power_int_increasing) simp_all
  also have "\<dots> = 2 powi k" by (simp add: power_int_diff)
  finally have "\<bar>real_of_int n * 2 powi e\<bar> \<le> 2 powi k" .
  then have "\<bar>real_of_int a\<bar> \<le> real_of_int b * 2 powi k"
    using b by (simp add: eq abs_mult mult.commute mult_left_mono)
  from round_to_double_fits [OF b this k] show ?thesis
    by (simp add: x' y' Let_def e_def [symmetric] n_def [symmetric] ab)
qed

lemma fmul_fits:
  assumes x: "float_fits x k1" and y: "float_fits y k2"
    and k: "- 1074 \<le> k1 + k2" "k1 + k2 \<le> 1023"
  shows "float_fits (fmul x y) (k1 + k2)"
proof -
  from x obtain m1 e1 where x': "x = Finite m1 e1"
    and b1: "\<bar>real_of_int m1\<bar> * 2 powi e1 \<le> 2 powi k1" by (rule float_fits_cases)
  from y obtain m2 e2 where y': "y = Finite m2 e2"
    and b2: "\<bar>real_of_int m2\<bar> * 2 powi e2 \<le> 2 powi k2" by (rule float_fits_cases)
  obtain a b where ab: "scale2 (e1 + e2) (m1 * m2, 1) = (a, b)" by force
  from scale2_one [OF ab] have b: "0 < b"
    and eq: "real_of_int a = real_of_int (m1 * m2) * 2 powi (e1 + e2) * real_of_int b" by simp_all
  have "\<bar>real_of_int (m1 * m2) * 2 powi (e1 + e2)\<bar> =
          (\<bar>real_of_int m1\<bar> * 2 powi e1) * (\<bar>real_of_int m2\<bar> * 2 powi e2)"
    by (simp add: abs_mult power_int_add)
  also have "\<dots> \<le> 2 powi k1 * 2 powi k2"
    using b1 b2 by (intro mult_mono) simp_all
  also have "\<dots> = 2 powi (k1 + k2)" by (simp add: power_int_add)
  finally have "\<bar>real_of_int (m1 * m2) * 2 powi (e1 + e2)\<bar> \<le> 2 powi (k1 + k2)" .
  then have "\<bar>real_of_int a\<bar> \<le> real_of_int b * 2 powi (k1 + k2)"
    using b by (simp add: eq abs_mult mult.commute mult_left_mono)
  from round_to_double_fits [OF b this k] show ?thesis
    by (simp add: x' y' ab)
qed

lemma float_0_01_fits: "float_fits float_0_01 (- 6)"
  by (simp add: float_0_01_def power_int_minus field_simps)

lemma round_half_even_strict_bound:
  assumes "0 < b" and "2 * \<bar>a\<bar> < (2 * N - 1) * b"
  shows "\<bar>round_half_even a b\<bar> < N"
proof -
  define q where "q = a div b"
  define r where "r = a mod b"
  define X where "X = q * b"
  define Y where "Y = N * b"
  have r: "0 \<le> r" "r < b" using assms(1) by (simp_all add: r_def)
  have a: "a = X + r" by (simp add: q_def r_def X_def)
  have rhe: "round_half_even a b =
      (if 2 * r < b then q else if b < 2 * r then q + 1 else if even q then q else q + 1)"
    by (simp add: round_half_even_def Let_def q_def r_def)
  have expand: "(2 * N - 1) * b = 2 * Y - b" by (simp add: algebra_simps Y_def)
  have both: "2 * \<bar>X + r\<bar> < 2 * Y - b"
    using assms(2) unfolding expand a .
  have up: "2 * X + 2 * r < 2 * Y - b"
    using both by arith
  have low: "b - 2 * Y < 2 * X + 2 * r"
    using both by arith
  have qN: "q < N"
  proof (rule ccontr)
    assume "\<not> q < N"
    then have "Y \<le> X" unfolding X_def Y_def using assms(1) by (intro mult_right_mono) simp_all
    with up r assms(1) show False by linarith
  qed
  have Nq: "- N \<le> q"
  proof (rule ccontr)
    assume "\<not> - N \<le> q"
    then have "q + 1 \<le> - N" by simp
    then have "(q + 1) * b \<le> (- N) * b" using assms(1) by (intro mult_right_mono) simp_all
    then have "X + b \<le> - Y" by (simp add: algebra_simps X_def Y_def)
    with low r assms(1) show False by linarith
  qed
  have top: "2 * r < b" if "q = N - 1"
  proof -
    have "X = Y - b" by (simp add: that algebra_simps X_def Y_def)
    with up show ?thesis by linarith
  qed
  have bot: "b < 2 * r" if "q = - N"
  proof -
    have "X = - Y" by (simp add: that X_def Y_def)
    with low show ?thesis by linarith
  qed
  consider "q = - N" | "q = N - 1" "q \<noteq> - N" | "- N < q" "q < N - 1"
    using qN Nq by linarith
  then show ?thesis
  proof cases
    case 1
    with bot have "round_half_even a b = q + 1" by (simp add: rhe)
    with 1 qN show ?thesis by simp
  next
    case 2
    with top have "round_half_even a b = q" by (simp add: rhe)
    with 2 Nq show ?thesis by simp
  next
    case 3
    have "round_half_even a b = q \<or> round_half_even a b = q + 1"
      by (auto simp: rhe)
    with 3 show ?thesis by auto
  qed
qed

lemma ilog2_1_bounds:
  assumes "2 ^ 1023 \<le> n" and "n < 2 ^ 1024"
  shows "ilog2 n 1 = 1023"
proof -
  have n: "0 < n" using assms(1) by (rule less_le_trans [rotated]) simp
  have b1: "bitlen 1 = 1" by (simp add: bitlen_alt_def)
  from bitlen_bounds [OF n] have lo: "2 ^ nat (bitlen n - 1) \<le> n" and hi: "n < 2 ^ nat (bitlen n)"
    by simp_all
  have "bitlen n = 1024"
  proof -
    have "(2::int) ^ 1023 < 2 ^ nat (bitlen n)" using assms(1) hi by linarith
    then have "1023 < nat (bitlen n)" by (simp only: power_strict_increasing_iff [of 2, simplified] one_less_numeral_iff semiring_norm power_strict_increasing_iff)
    moreover have "(2::int) ^ nat (bitlen n - 1) < 2 ^ 1024" using assms(2) lo by linarith
    then have "nat (bitlen n - 1) < 1024" by (simp only: power_strict_increasing_iff one_less_numeral_iff semiring_norm)
    ultimately show ?thesis by linarith
  qed
  then show ?thesis using assms(1) by (simp add: ilog2_def b1 scale2_def)
qed

lemma float_of_int_in_range:
  assumes "\<bar>i\<bar> < 2 ^ 1024 - 2 ^ 970"
  shows "\<exists>x. float_of_int i = Inr x \<and> float_fits x 1024"
proof (cases "\<bar>i\<bar> \<le> 2 ^ 1023")
  case True
  then have "real_of_int \<bar>i\<bar> \<le> real_of_int (2 ^ 1023)" by (simp only: of_int_le_iff)
  then have "\<bar>real_of_int i\<bar> \<le> 2 powi 1023" by simp
  from float_of_int_fits [OF this] obtain x where x: "float_of_int i = Inr x" "float_fits x 1023"
    by auto
  from x(2) have "float_fits x 1024"
    by (cases x) (auto elim!: order_trans intro!: power_int_increasing)
  with x show ?thesis by simp
next
  case False
  then have lo: "2 ^ 1023 \<le> \<bar>i\<bar>" by simp
  have hi: "\<bar>i\<bar> < 2 ^ 1024" using assms by simp
  have i0: "i \<noteq> 0" using lo by auto
  have "2 * \<bar>i\<bar> < (2 * 2 ^ 53 - 1) * (2::int) ^ 971" using assms by simp
  from round_half_even_strict_bound [OF _ this]
  have m: "\<bar>round_half_even i (2 ^ 971)\<bar> < 2 ^ 53" by simp
  have res: "round_to_double i 1 = Finite (round_half_even i (2 ^ 971)) 971"
    using i0 m by (simp add: round_to_double_def ilog2_1_bounds [OF lo hi] scale2_def Let_def)
  define m where "m = round_half_even i (2 ^ 971)"
  from m have "\<bar>m\<bar> \<le> 2 ^ 53" by (simp add: m_def)
  then have "real_of_int \<bar>m\<bar> \<le> real_of_int (2 ^ 53)" by (simp only: of_int_le_iff)
  then have "\<bar>real_of_int m\<bar> * 2 ^ 971 \<le> 2 ^ 53 * 2 ^ 971" by simp
  then have "float_fits (Finite m 971) 1024" by simp
  with res show ?thesis by (simp add: float_of_int_def m_def)
qed

lemma growth_of_returns:
  assumes e: "0 \<le> econ" "econ \<le> 100" and c: "0 \<le> crim" "crim \<le> 100"
    and p: "\<bar>pop\<bar> < 2 ^ 1024 - 2 ^ 970"
  shows "\<exists>g. growth_of pop econ crim = Inr g"
proof -
  have "\<bar>real_of_int econ\<bar> \<le> real_of_int 1000 * 2 powi (- 3)"
    using e by (simp add: power_int_minus)
  from py_truediv_fits [OF _ this] obtain a where a: "py_truediv econ 1000 = Inr a" "float_fits a (- 3)"
    by auto
  have "\<bar>real_of_int crim\<bar> \<le> real_of_int 2000 * 2 powi (- 4)"
    using c by (simp add: power_int_minus)
  from py_truediv_fits [OF _ this] obtain b where b: "py_truediv crim 2000 = Inr b" "float_fits b (- 4)"
    by auto
  from float_of_int_in_range [OF p] obtain q where q: "float_of_int pop = Inr q" "float_fits q 1024"
    by auto
  have "float_fits (fadd float_0_01 a) (- 2)"
    by (rule fadd_fits [OF float_0_01_fits a(2)]) simp_all
  then have "float_fits (fsub (fadd float_0_01 a) b) (- 1)"
    unfolding fsub_def by (rule fadd_fits [OF _ fneg_fits [OF b(2)]]) simp_all
  from fmul_fits [OF q(2) this] have "float_fits (fmul q (fsub (fadd float_0_01 a) b)) (1024 + - 1)"
    by simp
  then obtain m x where "fmul q (fsub (fadd float_0_01 a) b) = Finite m x"
    by (rule float_fits_cases)
  then show ?thesis by (simp add: growth_of_def a b q)
qed

section \<open>The city update\<close>

lemma growth_of_1000_50_10: "growth_of 1000 50 10 = Inr 55"
  by code_simp

text \<open>
  C4. With the three draws pinned to 0 and law effects \<open>{crime: 0, happiness: 0}\<close>, the
  update of a city with population 1000, economy 50, crime 10 and happiness 50 computes
  the growth 55, so the population becomes 1055, and economy, crime and happiness stay
  50, 10 and 50. The growth is the one of the float expression of the source,
  \<^verbatim>\<open>int(1000 * (0.01 + 50/1000 - 10/2000))\<close>, whose product is a little above 55.
\<close>

theorem yearly_update_pinned_example:
  "growth_of 1000 50 10 = Inr 55 \<and>
   yearly_update [(''crime'', 0), (''happiness'', 0)]
     \<lparr>econ_growth = 0, happiness_drift = 0, crime_drift = 0\<rparr>
     \<lparr>city_id = i, city_name = n, city_population = 1000, economy = 50, crime = 10,
      happiness = 50, features = fs\<rparr>
   = (\<lparr>city_id = i, city_name = n, city_population = 1055, economy = 50, crime = 10,
       happiness = 50, features = fs\<rparr>, None)"
  by (simp add: yearly_update_def set_attr_def growth_of_1000_50_10)

lemma apply_law_effects_crime_happiness:
  assumes "fst ` set le \<subseteq> {''crime'', ''happiness''}"
  shows "\<exists>c'. apply_law_effects le c = (c', None) \<and>
           economy c' = economy c \<and> city_population c' = city_population c \<and>
           (0 \<le> crime c \<and> crime c \<le> 100 \<longrightarrow> 0 \<le> crime c' \<and> crime c' \<le> 100) \<and>
           (0 \<le> happiness c \<and> happiness c \<le> 100 \<longrightarrow> 0 \<le> happiness c' \<and> happiness c' \<le> 100)"
  using assms
proof (induction le arbitrary: c)
  case Nil
  then show ?case by simp
next
  case (Cons kv le)
  obtain k v where kv: "kv = (k, v)" by (cases kv)
  from Cons.prems kv have k: "k = ''crime'' \<or> k = ''happiness''" by auto
  from Cons.prems have rest: "fst ` set le \<subseteq> {''crime'', ''happiness''}" by auto
  from k show ?case
  proof
    assume "k = ''crime''"
    then have step: "set_attr kv c = (c\<lparr>crime := max 0 (min 100 (crime c + v))\<rparr>, None)"
      by (simp add: set_attr_def kv)
    from Cons.IH [OF rest, of "c\<lparr>crime := max 0 (min 100 (crime c + v))\<rparr>"] step
    show ?thesis by auto
  next
    assume "k = ''happiness''"
    then have step: "set_attr kv c = (c\<lparr>happiness := max 0 (min 100 (happiness c + v))\<rparr>, None)"
      by (simp add: set_attr_def kv)
    from Cons.IH [OF rest, of "c\<lparr>happiness := max 0 (min 100 (happiness c + v))\<rparr>"] step
    show ?thesis by auto
  qed
qed

text \<open>
  C3. For a city with economy, crime and happiness in [0,100] and a population of at
  least 0, law effects whose keys are among "crime" and "happiness", and draws in the
  ranges of the three \<^verbatim>\<open>randint\<close> calls: in the state \<^verbatim>\<open>yearly_update\<close> leaves (also
  when the float conversion of a huge population raises), economy, crime and happiness
  are in [0,100] and the population is at least 0.
\<close>

theorem yearly_update_keeps_ranges:
  assumes "0 \<le> economy c" and "economy c \<le> 100"
    and "0 \<le> crime c" and "crime c \<le> 100"
    and "0 \<le> happiness c" and "happiness c \<le> 100"
    and "0 \<le> city_population c"
    and "fst ` set law_effects \<subseteq> {''crime'', ''happiness''}"
    and "city_draws_ok d"
  shows "\<exists>c' r. yearly_update law_effects d c = (c', r) \<and>
           0 \<le> economy c' \<and> economy c' \<le> 100 \<and>
           0 \<le> crime c' \<and> crime c' \<le> 100 \<and>
           0 \<le> happiness c' \<and> happiness c' \<le> 100 \<and>
           0 \<le> city_population c'"
proof -
  from apply_law_effects_crime_happiness [OF assms(8), of c]
  obtain c1 where c1: "apply_law_effects law_effects c = (c1, None)"
    "economy c1 = economy c" "city_population c1 = city_population c" by blast
  from assms(1,2,7,9) c1 show ?thesis
    by (cases "growth_of (city_population c) (min 100 (economy c + econ_growth d))
          (max 0 (min 100 (crime c1 + crime_drift d)))")
       (auto simp: yearly_update_def Let_def city_draws_ok_def)
qed

theorem yearly_update_keeps_ranges_witness:
  "(let c = \<lparr>city_id = ''id'', city_name = ''Port'', city_population = 1000, economy = 99, crime = 0,
            happiness = 100, features = [''port'']\<rparr>;
        le = [(''crime'', - 3), (''happiness'', 2)];
        d = \<lparr>econ_growth = 2, happiness_drift = 2, crime_drift = - 1\<rparr>
    in 0 \<le> economy c \<and> economy c \<le> 100 \<and> 0 \<le> crime c \<and> crime c \<le> 100 \<and>
       0 \<le> happiness c \<and> happiness c \<le> 100 \<and> 0 \<le> city_population c \<and>
       fst ` set le \<subseteq> {''crime'', ''happiness''} \<and> city_draws_ok d \<and>
       (\<exists>c' r. yearly_update le d c = (c', r) \<and>
           0 \<le> economy c' \<and> economy c' \<le> 100 \<and>
           0 \<le> crime c' \<and> crime c' \<le> 100 \<and>
           0 \<le> happiness c' \<and> happiness c' \<le> 100 \<and>
           0 \<le> city_population c'))"
  using yearly_update_keeps_ranges [of
     "\<lparr>city_id = ''id'', city_name = ''Port'', city_population = 1000, economy = 99, crime = 0,
            happiness = 100, features = [''port'']\<rparr>"
     "[(''crime'', - 3), (''happiness'', 2)]"
     "\<lparr>econ_growth = 2, happiness_drift = 2, crime_drift = - 1\<rparr>"]
  by (simp add: city_draws_ok_def)

section \<open>The cumulative law effects\<close>

lemma add_matching_crime_happiness:
  "add_matching items [(''crime'', a), (''happiness'', b)] =
     [(''crime'', a + key_total ''crime'' items), (''happiness'', b + key_total ''happiness'' items)]"
proof (induction items arbitrary: a b)
  case Nil
  show ?case by (simp add: key_total_def)
next
  case (Cons kv items)
  obtain k v where kv: "kv = (k, v)" by (cases kv)
  consider "k = ''crime''" | "k = ''happiness''" | "k \<noteq> ''crime''" "k \<noteq> ''happiness''" by blast
  then show ?case
  proof cases
    case 1
    then show ?thesis using Cons.IH [of "a + v" b] by (simp add: kv key_total_def)
  next
    case 2
    then show ?thesis using Cons.IH [of a "b + v"] by (simp add: kv key_total_def)
  next
    case 3
    then show ?thesis using Cons.IH [of a b] by (simp add: kv key_total_def)
  qed
qed

lemma fold_add_matching:
  "fold (\<lambda>l le. add_matching (impact l) le) ls [(''crime'', a), (''happiness'', b)] =
     [(''crime'', a + sum_list (map (\<lambda>l. key_total ''crime'' (impact l)) ls)),
      (''happiness'', b + sum_list (map (\<lambda>l. key_total ''happiness'' (impact l)) ls))]"
  by (induction ls arbitrary: a b) (simp_all add: add_matching_crime_happiness add.assoc)

lemma cumulative_law_effects_totals:
  "cumulative_law_effects ls =
     [(''crime'', sum_list (map (\<lambda>l. key_total ''crime'' (impact l)) ls)),
      (''happiness'', sum_list (map (\<lambda>l. key_total ''happiness'' (impact l)) ls))]"
  by (simp add: cumulative_law_effects_def fold_add_matching)

lemma sum_list_map_mset:
  fixes f :: "'a \<Rightarrow> int"
  assumes "mset xs = mset ys"
  shows "sum_list (map f xs) = sum_list (map f ys)"
proof -
  have "sum_list (map f xs) = sum_mset (image_mset f (mset xs))"
    by (metis mset_map sum_mset_sum_list)
  also have "\<dots> = sum_mset (image_mset f (mset ys))" by (simp add: assms)
  also have "\<dots> = sum_list (map f ys)" by (metis mset_map sum_mset_sum_list)
  finally show ?thesis .
qed

lemma key_total_filter:
  "k = ''crime'' \<or> k = ''happiness'' \<Longrightarrow>
   key_total k (filter (\<lambda>kv. fst kv = ''crime'' \<or> fst kv = ''happiness'') items) = key_total k items"
  unfolding key_total_def by (induction items) auto

text \<open>
  C7. A permutation \<open>ls'\<close> of the law sequence \<open>ls\<close> gives the same cumulative law
  effects, that is the same "crime" and "happiness" totals; and deleting from every
  law's impact the entries whose key is neither "crime" nor "happiness" changes nothing.
\<close>

theorem law_effects_order_independent:
  assumes "mset ls' = mset ls"
  shows "cumulative_law_effects ls' = cumulative_law_effects ls \<and>
         cumulative_law_effects
           (map (\<lambda>l. l\<lparr>impact := filter (\<lambda>kv. fst kv \<in> {''crime'', ''happiness''}) (impact l)\<rparr>) ls)
           = cumulative_law_effects ls"
proof
  show "cumulative_law_effects ls' = cumulative_law_effects ls"
    by (simp add: cumulative_law_effects_totals sum_list_map_mset [OF assms])
  show "cumulative_law_effects
           (map (\<lambda>l. l\<lparr>impact := filter (\<lambda>kv. fst kv \<in> {''crime'', ''happiness''}) (impact l)\<rparr>) ls)
           = cumulative_law_effects ls"
    by (simp add: cumulative_law_effects_totals comp_def key_total_filter)
qed

theorem law_effects_order_independent_witness:
  "mset [\<lparr>law_id = ''b'', title = ''Parks'', law_description = ''green'', impact = [(''happiness'', 2), (''crime'', 1)]\<rparr>,
         \<lparr>law_id = ''a'', title = ''Curfew'', law_description = ''night'', impact = [(''crime'', - 3), (''tax'', 9)]\<rparr>]
   = mset [\<lparr>law_id = ''a'', title = ''Curfew'', law_description = ''night'', impact = [(''crime'', - 3), (''tax'', 9)]\<rparr>,
           \<lparr>law_id = ''b'', title = ''Parks'', law_description = ''green'', impact = [(''happiness'', 2), (''crime'', 1)]\<rparr>] \<and>
   cumulative_law_effects
        [\<lparr>law_id = ''b'', title = ''Parks'', law_description = ''green'', impact = [(''happiness'', 2), (''crime'', 1)]\<rparr>,
         \<lparr>law_id = ''a'', title = ''Curfew'', law_description = ''night'', impact = [(''crime'', - 3), (''tax'', 9)]\<rparr>]
     = [(''crime'', - 2), (''happiness'', 2)]"
proof -
  let ?a = "\<lparr>law_id = ''a'', title = ''Curfew'', law_description = ''night'', impact = [(''crime'', - 3), (''tax'', 9)]\<rparr>"
  let ?b = "\<lparr>law_id = ''b'', title = ''Parks'', law_description = ''green'', impact = [(''happiness'', 2), (''crime'', 1)]\<rparr>"
  have h: "mset [?b, ?a] = mset [?a, ?b]" by simp
  have "cumulative_law_effects [?a, ?b] = [(''crime'', - 2), (''happiness'', 2)]"
    by (simp add: cumulative_law_effects_def)
  with law_effects_order_independent [OF h] h show ?thesis by simp
qed

end
